theory Spec2Isabelle
  imports Complex_Main
begin

section \<open>The persisted state store\<close>

text \<open>
  Both persistence services talk to a Redis server through a client object. A key of the
  server is absent, or holds a value together with an optional instant (in milliseconds,
  the unit of \<^verbatim>\<open>Date.now()\<close>) at which it expires. The commands below are the ones
  the services issue; each takes the instant \<open>now\<close> at which it runs.
\<close>

type_synonym 'a entry = "('a \<times> int option) option"

definition expired :: "int \<Rightarrow> int option \<Rightarrow> bool" where
  "expired now t = (case t of None \<Rightarrow> False | Some t' \<Rightarrow> t' \<le> now)"

definition redis_get :: "int \<Rightarrow> 'a entry \<Rightarrow> 'a option" where
  "redis_get now e =
     (case e of
        None \<Rightarrow> None
      | Some (v, t) \<Rightarrow> (if expired now t then None else Some v))"

definition redis_setEx :: "int \<Rightarrow> int \<Rightarrow> 'a \<Rightarrow> 'a entry" where
  "redis_setEx now ttlSeconds v = Some (v, Some (now + ttlSeconds * 1000))"

definition redis_expire :: "int \<Rightarrow> int \<Rightarrow> 'a entry \<Rightarrow> 'a entry" where
  "redis_expire now ttlSeconds e =
     (case e of
        None \<Rightarrow> None
      | Some (v, t) \<Rightarrow>
          (if expired now t then None else Some (v, Some (now + ttlSeconds * 1000))))"

definition redis_lPush :: "int \<Rightarrow> 'a list entry \<Rightarrow> 'a \<Rightarrow> 'a list entry" where
  "redis_lPush now e x =
     (case e of
        None \<Rightarrow> Some ([x], None)
      | Some (xs, t) \<Rightarrow> (if expired now t then Some ([x], None) else Some (x # xs, t)))"

definition redis_lRange :: "int \<Rightarrow> 'a list entry \<Rightarrow> 'a list" where
  "redis_lRange now e = (case redis_get now e of None \<Rightarrow> [] | Some xs \<Rightarrow> xs)"

definition redis_incr :: "int \<Rightarrow> int entry \<Rightarrow> int entry" where
  "redis_incr now e =
     (case e of
        None \<Rightarrow> Some (1, None)
      | Some (n, t) \<Rightarrow> (if expired now t then Some (1, None) else Some (n + 1, t)))"

section \<open>Catalog data\<close>

text \<open>The \<^verbatim>\<open>Product\<close> and \<^verbatim>\<open>ProductResponse\<close> interfaces of productService.ts.\<close>

record Product =
  product_id :: string
  title :: string
  price :: string
  inventory :: int
  created_at :: string

record ProductResponse =
  edges :: "(string \<times> Product) list"
  hasNextPage :: bool

record RateLimitState =
  points :: real
  lastRefillTime :: int

section \<open>ProductsPersistenceService\<close>

text \<open>
  The state of the service and of the keys it owns. \<open>isConnected\<close> is the field of the
  class; \<open>commands_fail\<close> says that the client rejects every command (the store is
  erroring). Values are kept as the objects that \<^verbatim>\<open>JSON.stringify\<close> wrote and
  \<^verbatim>\<open>JSON.parse\<close> reads back. The three key families \<^verbatim>\<open>product:\<close>,
  \<^verbatim>\<open>products:list:\<close> and \<^verbatim>\<open>ratelimiter:state\<close> never collide, so each has
  its own map; the rate limiter's key is written by \<^verbatim>\<open>set\<close>, without expiry.

  The reads \<^verbatim>\<open>await\<close> the client inside \<^verbatim>\<open>try\<close>, so a rejected command is
  caught and the read returns null. The writes call \<^verbatim>\<open>setEx\<close> and \<^verbatim>\<open>set\<close>
  without \<^verbatim>\<open>await\<close>: their \<^verbatim>\<open>try/catch\<close> only sees a synchronous throw, and a
  rejected command becomes an unhandled promise rejection. index.ts installs no handler
  for it, so Node ends the process. \<open>unhandled_rejection\<close> records that this has
  happened; the functions still return what the running code computes until then.
\<close>

record products_store =
  isConnected :: bool
  commands_fail :: bool
  unhandled_rejection :: bool
  product_keys :: "string \<Rightarrow> Product entry"
  list_keys :: "string \<Rightarrow> ProductResponse entry"
  ratelimiter_state :: "RateLimitState option"

text \<open>
  \<^verbatim>\<open>!this.isConnected || !this.client\<close>: the constructor always creates the client, so
  only the flag decides.
\<close>

definition failedConnection :: "products_store \<Rightarrow> bool" where
  "failedConnection db = (\<not> isConnected db)"

definition cacheProduct :: "products_store \<Rightarrow> int \<Rightarrow> string \<Rightarrow> Product \<Rightarrow> products_store" where
  "cacheProduct db now productId productData =
     (if failedConnection db then db
      else if commands_fail db then db\<lparr>unhandled_rejection := True\<rparr>
      else db\<lparr>product_keys := (product_keys db)
                (''product:'' @ productId := redis_setEx now 300 productData)\<rparr>)"

definition getCachedProduct :: "products_store \<Rightarrow> int \<Rightarrow> string \<Rightarrow> Product option" where
  "getCachedProduct db now productId =
     (if failedConnection db then None
      else if commands_fail db then None
      else redis_get now (product_keys db (''product:'' @ productId)))"

text \<open>\<^verbatim>\<open>cursor || 'start'\<close>: a null and an empty cursor both select the first page.\<close>

definition cursor_or_start :: "string option \<Rightarrow> string" where
  "cursor_or_start cursor =
     (case cursor of None \<Rightarrow> ''start'' | Some c \<Rightarrow> (if c = [] then ''start'' else c))"

definition cacheProductsList ::
  "products_store \<Rightarrow> int \<Rightarrow> string option \<Rightarrow> ProductResponse \<Rightarrow> products_store" where
  "cacheProductsList db now cursor productsData =
     (if failedConnection db then db
      else if commands_fail db then db\<lparr>unhandled_rejection := True\<rparr>
      else db\<lparr>list_keys := (list_keys db)
                (''products:list:'' @ cursor_or_start cursor := redis_setEx now 300 productsData)\<rparr>)"

definition getCachedProductsList ::
  "products_store \<Rightarrow> int \<Rightarrow> string option \<Rightarrow> ProductResponse option" where
  "getCachedProductsList db now cursor =
     (if failedConnection db then None
      else if commands_fail db then None
      else redis_get now (list_keys db (''products:list:'' @ cursor_or_start cursor)))"

definition updateRateLimitState :: "products_store \<Rightarrow> real \<Rightarrow> int \<Rightarrow> products_store" where
  "updateRateLimitState db pts lastRefill =
     (if failedConnection db then db
      else if commands_fail db then db\<lparr>unhandled_rejection := True\<rparr>
      else db\<lparr>ratelimiter_state := Some \<lparr>points = pts, lastRefillTime = lastRefill\<rparr>\<rparr>)"

definition getRateLimitState :: "products_store \<Rightarrow> RateLimitState option" where
  "getRateLimitState db =
     (if failedConnection db then None
      else if commands_fail db then None
      else ratelimiter_state db)"

section \<open>RateLimiter\<close>

text \<open>
  JavaScript numbers are modelled as reals (integers where the source only produces
  integers): rounding of IEEE doubles is not represented. An \<^verbatim>\<open>async\<close> method returns
  a promise object; \<open>await\<close> reads its value, and as a condition the object itself is
  truthy whatever it holds.
\<close>

datatype 'a promise = Promise 'a

fun await :: "'a promise \<Rightarrow> 'a" where
  "await (Promise v) = v"

definition truthy :: "'a promise \<Rightarrow> bool" where
  "truthy p = True"

definition MAX_POINTS :: real where
  "MAX_POINTS = 1000"

definition REFILL_RATE :: real where
  "REFILL_RATE = 50"

definition refillBucket :: "products_store \<Rightarrow> int \<Rightarrow> real \<times> products_store" where
  "refillBucket db now =
     (let state = (case getRateLimitState db of
                     Some s \<Rightarrow> s
                   | None \<Rightarrow> \<lparr>points = MAX_POINTS, lastRefillTime = now\<rparr>);
          timeSinceLastRefill = real_of_int (now - lastRefillTime state) / 1000;
          pointsToAdd = timeSinceLastRefill * REFILL_RATE;
          availablePoints = min MAX_POINTS (points state + pointsToAdd)
      in (availablePoints, updateRateLimitState db availablePoints now))"

definition canExecute :: "products_store \<Rightarrow> int \<Rightarrow> real \<Rightarrow> bool promise \<times> products_store" where
  "canExecute db now queryComplexity =
     (let (availablePoints, db') = refillBucket db now
      in (Promise (availablePoints \<ge> queryComplexity), db'))"

definition consume :: "products_store \<Rightarrow> real \<Rightarrow> products_store" where
  "consume db queryComplexity =
     (case getRateLimitState db of
        Some state \<Rightarrow>
          updateRateLimitState db (points state - queryComplexity) (lastRefillTime state)
      | None \<Rightarrow> db)"

definition getWaitTimeMs :: "products_store \<Rightarrow> int \<Rightarrow> real \<Rightarrow> int promise \<times> products_store" where
  "getWaitTimeMs db now queryComplexity =
     (let (pts, db') = refillBucket db now
      in (Promise (if pts \<ge> queryComplexity then 0
                   else (let pointsNeeded = queryComplexity - pts;
                             secondsToWait = pointsNeeded / REFILL_RATE
                         in \<lceil>secondsToWait * 1000\<rceil>)),
          db'))"

section \<open>MetricsPersistenceService\<close>

text \<open>
  Response times are pushed as the decimal text of \<^verbatim>\<open>responseTimeMs.toString()\<close> and
  read back with \<^verbatim>\<open>parseInt(t, 10)\<close>. Response times are differences of two
  \<^verbatim>\<open>Date.now()\<close> readings, hence integers. \<open>parseInt\<close> skips leading white space,
  takes an optional sign and the longest run of decimal digits, and yields \<open>None\<close>
  (JavaScript's NaN) when there is no digit.
\<close>

definition digit_char :: "nat \<Rightarrow> char" where
  "digit_char d = ''0123456789'' ! d"

fun digits :: "nat \<Rightarrow> string" where
  "digits n = (if n < 10 then [digit_char n] else digits (n div 10) @ [digit_char (n mod 10)])"

definition toString :: "int \<Rightarrow> string" where
  "toString n = (if n < 0 then CHR ''-'' # digits (nat (- n)) else digits (nat n))"

definition is_digit :: "char \<Rightarrow> bool" where
  "is_digit c = (c \<in> set ''0123456789'')"

definition is_space :: "char \<Rightarrow> bool" where
  "is_space c = (c \<in> {CHR '' '', CHR 0x09, CHR 0x0A, CHR 0x0B, CHR 0x0C, CHR 0x0D})"

definition digit_value :: "char \<Rightarrow> int" where
  "digit_value c = int (of_char c) - 48"

definition digits_value :: "string \<Rightarrow> int" where
  "digits_value ds = fold (\<lambda>c acc. acc * 10 + digit_value c) ds 0"

definition parseInt :: "string \<Rightarrow> int option" where
  "parseInt s =
     (let s1 = dropWhile is_space s;
          (neg, s2) = (case s1 of
                         [] \<Rightarrow> (False, s1)
                       | c # r \<Rightarrow> (if c = CHR ''-'' then (True, r)
                                   else if c = CHR ''+'' then (False, r)
                                   else (False, s1)));
          ds = takeWhile is_digit s2
      in if ds = [] then None
         else Some (if neg then - digits_value ds else digits_value ds))"

text \<open>
  The state of the service and of its keys. As in the products service, \<^verbatim>\<open>getMetrics\<close>
  and \<^verbatim>\<open>resetMetrics\<close> await the client inside \<^verbatim>\<open>try\<close>, while the two recording
  methods call \<^verbatim>\<open>setEx\<close>, \<^verbatim>\<open>lPush\<close>, \<^verbatim>\<open>expire\<close> and \<^verbatim>\<open>incr\<close> without
  \<^verbatim>\<open>await\<close>, so a rejected command of theirs is an unhandled rejection.
\<close>

record metrics_store =
  metrics_isConnected :: bool
  metrics_commands_fail :: bool
  metrics_unhandled_rejection :: bool
  endpoint_samples :: "int \<Rightarrow> (int \<times> int) entry"
  endpoint_times :: "string list entry"
  endpoint_calls :: "int entry"
  shopify_samples :: "int \<Rightarrow> (int \<times> int) entry"
  shopify_times :: "string list entry"
  shopify_calls :: "int entry"

text \<open>A statistic is an integer or NaN.\<close>

datatype number = NaN | Number int

record ProductStats =
  endpoint_average :: number
  endpoint_max :: number
  endpoint_min :: number
  total_endpoint_calls :: number
  average_shopify_call_responsetime_ms :: number
  total_shopify_api_calls :: number

definition metrics_failedConnection :: "metrics_store \<Rightarrow> bool" where
  "metrics_failedConnection m = (\<not> metrics_isConnected m)"

definition recordEndpointMetric :: "metrics_store \<Rightarrow> int \<Rightarrow> int \<Rightarrow> metrics_store" where
  "recordEndpointMetric m now responseTimeMs =
     (if metrics_failedConnection m then m
      else if metrics_commands_fail m then m\<lparr>metrics_unhandled_rejection := True\<rparr>
      else
        (let timestamp = now;
             m1 = m\<lparr>endpoint_samples := (endpoint_samples m)
                     (timestamp := redis_setEx now 3600 (responseTimeMs, timestamp))\<rparr>;
             m2 = m1\<lparr>endpoint_times :=
                     redis_lPush now (endpoint_times m1) (toString responseTimeMs)\<rparr>;
             m3 = m2\<lparr>endpoint_times := redis_expire now 3600 (endpoint_times m2)\<rparr>;
             m4 = m3\<lparr>endpoint_calls := redis_incr now (endpoint_calls m3)\<rparr>
         in m4\<lparr>endpoint_calls := redis_expire now 3600 (endpoint_calls m4)\<rparr>))"

definition recordShopifyMetric :: "metrics_store \<Rightarrow> int \<Rightarrow> int \<Rightarrow> metrics_store" where
  "recordShopifyMetric m now responseTimeMs =
     (if metrics_failedConnection m then m
      else if metrics_commands_fail m then m\<lparr>metrics_unhandled_rejection := True\<rparr>
      else
        (let timestamp = now;
             m1 = m\<lparr>shopify_samples := (shopify_samples m)
                     (timestamp := redis_setEx now 3600 (responseTimeMs, timestamp))\<rparr>;
             m2 = m1\<lparr>shopify_times :=
                     redis_lPush now (shopify_times m1) (toString responseTimeMs)\<rparr>;
             m3 = m2\<lparr>shopify_times := redis_expire now 3600 (shopify_times m2)\<rparr>;
             m4 = m3\<lparr>shopify_calls := redis_incr now (shopify_calls m3)\<rparr>
         in m4\<lparr>shopify_calls := redis_expire now 3600 (shopify_calls m4)\<rparr>))"

definition zero_stats :: ProductStats where
  "zero_stats =
     \<lparr>endpoint_average = Number 0, endpoint_max = Number 0, endpoint_min = Number 0,
      total_endpoint_calls = Number 0, average_shopify_call_responsetime_ms = Number 0,
      total_shopify_api_calls = Number 0\<rparr>"

text \<open>
  The arithmetic of \<^verbatim>\<open>getMetrics\<close> on parsed times, where \<open>None\<close> is NaN:
  \<^verbatim>\<open>times.reduce((a, b) => a + b, 0) / times.length\<close>, \<^verbatim>\<open>Math.max(...times)\<close>,
  \<^verbatim>\<open>Math.min(...times)\<close> and \<^verbatim>\<open>Math.round\<close>. NaN is contagious. The source
  calls the maximum and the minimum on non-empty lists only (on an empty list they are
  infinite, which \<open>number\<close> does not represent).
\<close>

definition reduce_sum :: "int option list \<Rightarrow> int option" where
  "reduce_sum ts =
     fold (\<lambda>b a. case (a, b) of (Some x, Some y) \<Rightarrow> Some (x + y) | _ \<Rightarrow> None) ts (Some 0)"

definition average :: "int option list \<Rightarrow> real option" where
  "average ts =
     (case reduce_sum ts of
        None \<Rightarrow> None
      | Some acc \<Rightarrow> Some (real_of_int acc / real (length ts)))"

definition Math_round :: "real option \<Rightarrow> number" where
  "Math_round x = (case x of None \<Rightarrow> NaN | Some r \<Rightarrow> Number (round r))"

definition Math_max :: "int option list \<Rightarrow> number" where
  "Math_max ts =
     (case those ts of
        Some (t # rest) \<Rightarrow> Number (fold max rest t)
      | _ \<Rightarrow> NaN)"

definition Math_min :: "int option list \<Rightarrow> number" where
  "Math_min ts =
     (case those ts of
        Some (t # rest) \<Rightarrow> Number (fold min rest t)
      | _ \<Rightarrow> NaN)"

text \<open>\<^verbatim>\<open>parseInt(calls || '0', 10)\<close> on the reply of \<^verbatim>\<open>get\<close>, a string or null.\<close>

definition parse_calls :: "string option \<Rightarrow> number" where
  "parse_calls calls =
     (case parseInt (case calls of
                       None \<Rightarrow> ''0''
                     | Some c \<Rightarrow> (if c = [] then ''0'' else c)) of
        None \<Rightarrow> NaN
      | Some n \<Rightarrow> Number n)"

text \<open>A counter written by \<^verbatim>\<open>incr\<close> is read by \<^verbatim>\<open>get\<close> as its decimal text.\<close>

definition getMetrics :: "metrics_store \<Rightarrow> int \<Rightarrow> ProductStats" where
  "getMetrics m now =
     (if metrics_failedConnection m then zero_stats
      else if metrics_commands_fail m then zero_stats
      else
        (let endpointTimes = redis_lRange now (endpoint_times m);
             endpointCalls = map_option toString (redis_get now (endpoint_calls m));
             shopifyTimes = redis_lRange now (shopify_times m);
             shopifyCalls = map_option toString (redis_get now (shopify_calls m));
             (endpointAvg, endpointMax, endpointMin) =
               (if length endpointTimes > 0 then
                  (let ts = map parseInt endpointTimes
                   in (average ts, Math_max ts, Math_min ts))
                else (Some 0, Number 0, Number 0));
             shopifyAvg =
               (if length shopifyTimes > 0 then
                  (let ts = map parseInt shopifyTimes in average ts)
                else Some 0)
         in \<lparr>endpoint_average = Math_round endpointAvg,
             endpoint_max = endpointMax,
             endpoint_min = endpointMin,
             total_endpoint_calls = parse_calls endpointCalls,
             average_shopify_call_responsetime_ms = Math_round shopifyAvg,
             total_shopify_api_calls = parse_calls shopifyCalls\<rparr>))"

definition resetMetrics :: "metrics_store \<Rightarrow> metrics_store" where
  "resetMetrics m =
     (if metrics_failedConnection m then m
      else if metrics_commands_fail m then m
      else m\<lparr>endpoint_times := None, endpoint_calls := None,
              shopify_times := None, shopify_calls := None\<rparr>)"

section \<open>The orchestrator's world\<close>

text \<open>
  The clock read by \<^verbatim>\<open>Date.now()\<close>, the two stores, and the chronological trace of
  the calls that \<^verbatim>\<open>executeQuery\<close> makes. A request is the query text (one of the two
  constants of productService.ts) with its variables.
\<close>

datatype request =
    Product_by_id_query string
  | Products_query int "string option" string

datatype event =
    Ev_canExecute real
  | Ev_getWaitTimeMs real
  | Ev_sleep int
  | Ev_post request
  | Ev_consume real
  | Ev_recordShopifyCall int

record world =
  clock :: int
  products_db :: products_store
  metrics_db :: metrics_store
  trace :: "event list"

text \<open>\<^verbatim>\<open>MetricsService.recordShopifyCall\<close> forwards to the persistence service.\<close>

definition recordShopifyCall :: "world \<Rightarrow> int \<Rightarrow> world" where
  "recordShopifyCall w responseTimeMs =
     w\<lparr>metrics_db := recordShopifyMetric (metrics_db w) (clock w) responseTimeMs,
       trace := trace w @ [Ev_recordShopifyCall responseTimeMs]\<rparr>"

section \<open>ProductService\<close>

text \<open>
  The upstream exchange is an input of the model: how long it took, and whether axios
  rejected (network failure, timeout, non-2xx status) or resolved with a body. The body's
  \<^verbatim>\<open>extensions.cost.actualQueryCost\<close> is missing together with its parents (reading it
  throws a TypeError), undefined, or a number; \<^verbatim>\<open>errors\<close> is absent or a list of
  messages; \<^verbatim>\<open>data\<close> is the payload.
\<close>

datatype error = AxiosError string | TypeError | Error string

datatype cost_report = No_extensions | Cost_undefined | Actual_cost real

record 'a response_data =
  extensions_cost :: cost_report
  errors :: "string list option"
  data :: 'a

datatype 'a upstream_reply = Rejected string | Resolved "'a response_data"

record raw_node =
  node_id :: string
  node_title :: string
  amount :: "string option"
  totalInventory :: "int option"
  createdAt :: string

record raw_products =
  raw_edges :: "(string \<times> raw_node) list"
  raw_hasNextPage :: bool

fun join :: "string list \<Rightarrow> string" where
  "join [] = []"
| "join [m] = m"
| "join (m # m' # ms) = m @ ''; '' @ join (m' # ms)"

definition sleep :: "world \<Rightarrow> int \<Rightarrow> world" where
  "sleep w ms = w\<lparr>clock := clock w + max 0 ms, trace := trace w @ [Ev_sleep ms]\<rparr>"

definition marshallProduct :: "raw_node \<Rightarrow> Product" where
  "marshallProduct node =
     \<lparr>product_id = node_id node,
      title = node_title node,
      price = (case amount node of None \<Rightarrow> ''0'' | Some a \<Rightarrow> (if a = [] then ''0'' else a)),
      inventory = (case totalInventory node of None \<Rightarrow> 0 | Some n \<Rightarrow> n),
      created_at = createdAt node\<rparr>"

text \<open>
  The gate at the head of \<^verbatim>\<open>executeQuery\<close>. \<^verbatim>\<open>canExecute\<close> is an \<^verbatim>\<open>async\<close>
  method and is called without \<^verbatim>\<open>await\<close>, so the condition negates the promise
  object. The refill that the call started runs on; the store answers it before the HTTP
  exchange completes, so its write precedes everything that follows the request.
\<close>

definition rate_limit_gate :: "world \<Rightarrow> world" where
  "rate_limit_gate w =
     (let queryComplexity = 10;
          (allowed, db1) = canExecute (products_db w) (clock w) queryComplexity;
          w1 = w\<lparr>products_db := db1, trace := trace w @ [Ev_canExecute queryComplexity]\<rparr>
      in if \<not> truthy allowed then
           (let (waitTime, db2) = getWaitTimeMs (products_db w1) (clock w1) queryComplexity;
                w2 = w1\<lparr>products_db := db2,
                        trace := trace w1 @ [Ev_getWaitTimeMs queryComplexity]\<rparr>
            in sleep w2 (await waitTime))
         else w1)"

text \<open>
  The body of the \<^verbatim>\<open>try\<close> block: the request is posted and takes \<open>latency\<close>
  milliseconds. \<^verbatim>\<open>consume\<close> has the default argument 5 for an undefined cost.
\<close>

definition executeQuery_try ::
  "world \<Rightarrow> int \<Rightarrow> request \<Rightarrow> nat \<Rightarrow> 'a upstream_reply \<Rightarrow> (error + 'a) \<times> world" where
  "executeQuery_try w startTime query latency reply =
     (let w1 = w\<lparr>clock := clock w + int latency, trace := trace w @ [Ev_post query]\<rparr>
      in case reply of
           Rejected msg \<Rightarrow> (Inl (AxiosError msg), w1)
         | Resolved body \<Rightarrow>
             (case extensions_cost body of
                No_extensions \<Rightarrow> (Inl TypeError, w1)
              | cost \<Rightarrow>
                  (let actualQueryCost = (case cost of Actual_cost c \<Rightarrow> c | _ \<Rightarrow> 5);
                       w2 = w1\<lparr>products_db := consume (products_db w1) actualQueryCost,
                               trace := trace w1 @ [Ev_consume actualQueryCost]\<rparr>;
                       endTime = clock w2;
                       w3 = recordShopifyCall w2 (endTime - startTime)
                   in case errors body of
                        Some es \<Rightarrow> (Inl (Error (''GraphQL Error: '' @ join es)), w3)
                      | None \<Rightarrow> (Inr (data body), w3))))"

definition executeQuery ::
  "world \<Rightarrow> request \<Rightarrow> nat \<Rightarrow> 'a upstream_reply \<Rightarrow> (error + 'a) \<times> world" where
  "executeQuery w query latency reply =
     (let w1 = rate_limit_gate w;
          startTime = clock w1
      in case executeQuery_try w1 startTime query latency reply of
           (Inr result, w2) \<Rightarrow> (Inr result, w2)
         | (Inl err, w2) \<Rightarrow>
             (let endTime = clock w2
              in (Inl err, recordShopifyCall w2 (endTime - startTime))))"

text \<open>
  \<^verbatim>\<open>getProductById\<close>: the payload is null (reading \<^verbatim>\<open>response.product\<close> throws), or
  has a \<^verbatim>\<open>product\<close> that is null or a node. The result is a promise that could reject
  or resolve with a product or null.
\<close>

definition getProductById_try ::
  "world \<Rightarrow> string \<Rightarrow> nat \<Rightarrow> raw_node option option upstream_reply
     \<Rightarrow> (error + Product option) \<times> world" where
  "getProductById_try w id0 latency reply =
     (let gid = ''gid://shopify/Product/'' @ id0
      in case getCachedProduct (products_db w) (clock w) gid of
           Some cached \<Rightarrow> (Inr (Some cached), w)
         | None \<Rightarrow>
             (case executeQuery w (Product_by_id_query gid) latency reply of
                (Inl err, w1) \<Rightarrow> (Inl err, w1)
              | (Inr None, w1) \<Rightarrow> (Inl TypeError, w1)
              | (Inr (Some None), w1) \<Rightarrow> (Inr None, w1)
              | (Inr (Some (Some node)), w1) \<Rightarrow>
                  (let product = marshallProduct node
                   in (Inr (Some product),
                       w1\<lparr>products_db :=
                            cacheProduct (products_db w1) (clock w1) gid product\<rparr>))))"

definition getProductById ::
  "world \<Rightarrow> string \<Rightarrow> nat \<Rightarrow> raw_node option option upstream_reply
     \<Rightarrow> (error + Product option) \<times> world" where
  "getProductById w id0 latency reply =
     (case getProductById_try w id0 latency reply of
        (Inr result, w1) \<Rightarrow> (Inr result, w1)
      | (Inl err, w1) \<Rightarrow> (Inr None, w1))"

text \<open>
  \<^verbatim>\<open>listProducts\<close>: the payload lacks \<^verbatim>\<open>products\<close> (reading its edges throws) or has
  the raw page. \<^verbatim>\<open>after: cursor || null\<close> sends an empty cursor as null.
\<close>

definition cursor_or_null :: "string option \<Rightarrow> string option" where
  "cursor_or_null cursor =
     (case cursor of None \<Rightarrow> None | Some c \<Rightarrow> (if c = [] then None else Some c))"

definition listProducts_try ::
  "world \<Rightarrow> int \<Rightarrow> string option \<Rightarrow> nat \<Rightarrow> raw_products option upstream_reply
     \<Rightarrow> (error + ProductResponse) \<times> world" where
  "listProducts_try w limit cursor latency reply =
     (let first = min (max 1 limit) 250;
          cached = getCachedProductsList (products_db w) (clock w) cursor
      in case (case cached of
                 Some page \<Rightarrow> (if int (length (edges page)) \<ge> limit then Some page else None)
               | None \<Rightarrow> None) of
           Some page \<Rightarrow> (Inr page, w)
         | None \<Rightarrow>
             (case executeQuery w (Products_query first (cursor_or_null cursor) ''TITLE'')
                     latency reply of
                (Inl err, w1) \<Rightarrow> (Inl err, w1)
              | (Inr None, w1) \<Rightarrow> (Inl TypeError, w1)
              | (Inr (Some products), w1) \<Rightarrow>
                  (let page = \<lparr>edges = map (\<lambda>(c, node). (c, marshallProduct node))
                                          (raw_edges products),
                               hasNextPage = raw_hasNextPage products\<rparr>
                   in (Inr page,
                       w1\<lparr>products_db :=
                            cacheProductsList (products_db w1) (clock w1) cursor page\<rparr>))))"

definition listProducts ::
  "world \<Rightarrow> int \<Rightarrow> string option \<Rightarrow> nat \<Rightarrow> raw_products option upstream_reply
     \<Rightarrow> (error + ProductResponse) \<times> world" where
  "listProducts w limit cursor latency reply =
     (case listProducts_try w limit cursor latency reply of
        (Inr page, w1) \<Rightarrow> (Inr page, w1)
      | (Inl err, w1) \<Rightarrow> (Inr \<lparr>edges = [], hasNextPage = False\<rparr>, w1))"

text \<open>The upstream requests and the sleeps recorded in a trace.\<close>

definition posts :: "event list \<Rightarrow> request list" where
  "posts evs = concat (map (\<lambda>e. case e of Ev_post q \<Rightarrow> [q] | _ \<Rightarrow> []) evs)"

definition sleeps :: "event list \<Rightarrow> int list" where
  "sleeps evs = concat (map (\<lambda>e. case e of Ev_sleep ms \<Rightarrow> [ms] | _ \<Rightarrow> []) evs)"

definition shopify_records :: "event list \<Rightarrow> int list" where
  "shopify_records evs =
     concat (map (\<lambda>e. case e of Ev_recordShopifyCall ms \<Rightarrow> [ms] | _ \<Rightarrow> []) evs)"

section \<open>Stated properties\<close>

text \<open>
  The invariant of the data model on the persisted bucket, \<open>0 \<le> points \<le> MAX_POINTS\<close>,
  and the condition that the persisted refill time is not ahead of the clock.
\<close>

definition bucket_invariant :: "products_store \<Rightarrow> bool" where
  "bucket_invariant db =
     (case ratelimiter_state db of
        None \<Rightarrow> True
      | Some st \<Rightarrow> 0 \<le> points st \<and> points st \<le> MAX_POINTS)"

definition refill_not_in_future :: "products_store \<Rightarrow> int \<Rightarrow> bool" where
  "refill_not_in_future db now =
     (case ratelimiter_state db of None \<Rightarrow> True | Some st \<Rightarrow> lastRefillTime st \<le> now)"

text \<open>
  An unhandled rejection has been raised in one of the two stores' clients: Node ends the
  process, and every request in flight fails with it.
\<close>

definition process_ends :: "world \<Rightarrow> bool" where
  "process_ends w =
     (unhandled_rejection (products_db w) \<or> metrics_unhandled_rejection (metrics_db w))"

text \<open>
  The failure that an upstream exchange makes \<^verbatim>\<open>executeQuery\<close> throw, if any: the
  rejection of axios, the TypeError of a body without \<^verbatim>\<open>extensions.cost\<close>, or the
  single error that joins the messages of the body's \<^verbatim>\<open>errors\<close> list.
\<close>

fun upstream_failure :: "'a upstream_reply \<Rightarrow> error option" where
  "upstream_failure (Rejected msg) = Some (AxiosError msg)"
| "upstream_failure (Resolved body) =
     (case extensions_cost body of
        No_extensions \<Rightarrow> Some TypeError
      | _ \<Rightarrow> (case errors body of
                 Some es \<Rightarrow> Some (Error (''GraphQL Error: '' @ join es))
               | None \<Rightarrow> None))"

section \<open>Example states\<close>

text \<open>
  A connected store with no keys, the same store with a partly drained bucket, and an
  empty metrics window.
\<close>

definition empty_store :: products_store where
  "empty_store =
     \<lparr>isConnected = True, commands_fail = False, unhandled_rejection = False,
      product_keys = (\<lambda>k. None),
      list_keys = (\<lambda>k. None), ratelimiter_state = None\<rparr>"

definition drained_store :: products_store where
  "drained_store = empty_store\<lparr>ratelimiter_state := Some \<lparr>points = 100, lastRefillTime = 0\<rparr>\<rparr>"

definition empty_metrics :: metrics_store where
  "empty_metrics =
     \<lparr>metrics_isConnected = True, metrics_commands_fail = False,
      metrics_unhandled_rejection = False,
      endpoint_samples = (\<lambda>k. None), endpoint_times = None, endpoint_calls = None,
      shopify_samples = (\<lambda>k. None), shopify_times = None, shopify_calls = None\<rparr>"

text \<open>
  Worlds at time 4000 over these stores: one whose bucket refills to 300 points, one whose
  bucket is empty. An upstream node, a successful reply carrying it, and a reply carrying
  two GraphQL errors.
\<close>

definition example_node :: raw_node where
  "example_node =
     \<lparr>node_id = ''gid://shopify/Product/1'', node_title = ''Lamp'', amount = Some ''12.50'',
      totalInventory = Some 4, createdAt = ''2024-01-01T00:00:00Z''\<rparr>"

definition example_world :: world where
  "example_world =
     \<lparr>clock = 4000, products_db = drained_store, metrics_db = empty_metrics, trace = []\<rparr>"

definition exhausted_world :: world where
  "exhausted_world =
     \<lparr>clock = 4000,
      products_db = empty_store\<lparr>ratelimiter_state := Some \<lparr>points = 0, lastRefillTime = 4000\<rparr>\<rparr>,
      metrics_db = empty_metrics,
      trace = []\<rparr>"

definition product_reply :: "raw_node option option upstream_reply" where
  "product_reply =
     Resolved \<lparr>extensions_cost = Actual_cost 3, errors = None, data = Some (Some example_node)\<rparr>"

definition errors_reply :: "raw_node option option upstream_reply" where
  "errors_reply =
     Resolved \<lparr>extensions_cost = Actual_cost 3,
               errors = Some [''Throttled'', ''Field missing''], data = None\<rparr>"


definition cached_page :: ProductResponse where
  "cached_page =
     \<lparr>edges = [(''c1'', marshallProduct example_node), (''c2'', marshallProduct example_node)],
      hasNextPage = True\<rparr>"

definition paged_world :: world where
  "paged_world =
     example_world\<lparr>products_db := drained_store
       \<lparr>list_keys := (\<lambda>k. None)(''products:list:start'' := Some (cached_page, Some 300000))\<rparr>\<rparr>"

text \<open>
  Stores that are connected while their client rejects every command, a world over such
  a products store, and a reply that carries a GraphQL error but no
  \<^verbatim>\<open>extensions.cost\<close>.
\<close>

definition erroring_store :: products_store where
  "erroring_store = drained_store\<lparr>commands_fail := True\<rparr>"

definition erroring_metrics :: metrics_store where
  "erroring_metrics = empty_metrics\<lparr>metrics_commands_fail := True\<rparr>"

definition erroring_world :: world where
  "erroring_world = example_world\<lparr>products_db := erroring_store\<rparr>"

definition errors_no_cost_reply :: "raw_node option option upstream_reply" where
  "errors_no_cost_reply =
     Resolved \<lparr>extensions_cost = No_extensions, errors = Some [''Parse error''], data = None\<rparr>"

section \<open>Auxiliary facts\<close>

lemma rate_limit_gate_eq:
  "rate_limit_gate w =
     w\<lparr>products_db := snd (refillBucket (products_db w) (clock w)),
       trace := trace w @ [Ev_canExecute 10]\<rparr>"
  by (simp add: rate_limit_gate_def truthy_def canExecute_def split_beta Let_def)

lemma executeQuery_never_sleeps:
  "sleeps (trace (snd (executeQuery w query latency reply))) = sleeps (trace w)"
  by (cases reply)
    (auto simp: executeQuery_def executeQuery_try_def rate_limit_gate_eq recordShopifyCall_def
      sleeps_def Let_def split: cost_report.splits option.splits)

lemma refillBucket_connected:
  assumes "isConnected db" and "\<not> commands_fail db"
  shows "isConnected (snd (refillBucket db now))"
    and "\<not> commands_fail (snd (refillBucket db now))"
    and "ratelimiter_state (snd (refillBucket db now))
           = Some \<lparr>points = fst (refillBucket db now), lastRefillTime = now\<rparr>"
  using assms
  by (simp_all add: refillBucket_def updateRateLimitState_def failedConnection_def Let_def)

lemma consume_connected:
  assumes "isConnected db" and "\<not> commands_fail db" and "ratelimiter_state db = Some st"
  shows "ratelimiter_state (consume db cost)
           = Some \<lparr>points = points st - cost, lastRefillTime = lastRefillTime st\<rparr>"
  using assms
  by (simp add: consume_def getRateLimitState_def updateRateLimitState_def failedConnection_def)

lemma executeQuery_resolved:
  assumes "extensions_cost body \<noteq> No_extensions"
  shows "executeQuery w query latency (Resolved body) =
     (let cost = (case extensions_cost body of Actual_cost c \<Rightarrow> c | _ \<Rightarrow> 5);
          w3 = recordShopifyCall
                 (w\<lparr>clock := clock w + int latency,
                    products_db := consume (snd (refillBucket (products_db w) (clock w))) cost,
                    trace := trace w @ [Ev_canExecute 10, Ev_post query, Ev_consume cost]\<rparr>)
                 (int latency)
      in case errors body of
           None \<Rightarrow> (Inr (data body), w3)
         | Some es \<Rightarrow> (Inl (Error (''GraphQL Error: '' @ join es)),
                       recordShopifyCall w3 (int latency)))"
  using assms
  by (cases "extensions_cost body"; cases "errors body")
    (simp_all add: executeQuery_def executeQuery_try_def rate_limit_gate_eq
      recordShopifyCall_def Let_def)

lemma recordShopifyMetric_flags:
  "metrics_isConnected (recordShopifyMetric m now ms) = metrics_isConnected m"
  "metrics_commands_fail (recordShopifyMetric m now ms) = metrics_commands_fail m"
  by (simp_all add: recordShopifyMetric_def Let_def)

lemma redis_lPush_expire:
  "0 < ttl \<Longrightarrow>
     redis_lRange now (redis_expire now ttl (redis_lPush now e x)) = x # redis_lRange now e"
  by (cases e)
    (auto simp: redis_lRange_def redis_get_def redis_lPush_def redis_expire_def expired_def
      split: option.splits if_splits)

lemma redis_incr_expire:
  "0 < ttl \<Longrightarrow> redis_get now (redis_expire now ttl (redis_incr now e))
     = Some ((case redis_get now e of None \<Rightarrow> 0 | Some n \<Rightarrow> n) + 1)"
  by (cases e)
    (auto simp: redis_get_def redis_incr_def redis_expire_def expired_def
      split: option.splits if_splits)

lemma recordShopifyMetric_times:
  assumes "metrics_isConnected m" and "\<not> metrics_commands_fail m"
  shows "redis_lRange now (shopify_times (recordShopifyMetric m now ms))
           = toString ms # redis_lRange now (shopify_times m)"
  using assms
  by (simp add: recordShopifyMetric_def metrics_failedConnection_def redis_lPush_expire Let_def)

lemma recordShopifyMetric_calls:
  assumes "metrics_isConnected m" and "\<not> metrics_commands_fail m"
  shows "redis_get now (shopify_calls (recordShopifyMetric m now ms))
           = Some ((case redis_get now (shopify_calls m) of None \<Rightarrow> 0 | Some n \<Rightarrow> n) + 1)"
  using assms
  by (simp add: recordShopifyMetric_def metrics_failedConnection_def redis_incr_expire Let_def)

lemma executeQuery_no_extensions:
  assumes "extensions_cost body = No_extensions"
  shows "executeQuery w query latency (Resolved body) =
     (Inl TypeError,
      recordShopifyCall
        (w\<lparr>clock := clock w + int latency,
           products_db := snd (refillBucket (products_db w) (clock w)),
           trace := trace w @ [Ev_canExecute 10, Ev_post query]\<rparr>)
        (int latency))"
  using assms
  by (simp add: executeQuery_def executeQuery_try_def rate_limit_gate_eq
      recordShopifyCall_def Let_def)

lemma upstream_failure_defined:
  "upstream_failure (Rejected msg) \<noteq> None"
  "errors body = Some es \<Longrightarrow> upstream_failure (Resolved body) \<noteq> None"
  by (simp_all split: cost_report.splits)

lemma executeQuery_posts:
  "posts (trace (snd (executeQuery w query latency reply))) = posts (trace w) @ [query]"
proof (cases reply)
  case (Rejected msg)
  then show ?thesis
    by (simp add: executeQuery_def executeQuery_try_def rate_limit_gate_eq
        recordShopifyCall_def posts_def Let_def)
next
  case (Resolved body)
  show ?thesis
  proof (cases "extensions_cost body = No_extensions")
    case True
    with Resolved show ?thesis
      by (simp add: executeQuery_def executeQuery_try_def rate_limit_gate_eq
          recordShopifyCall_def posts_def Let_def)
  next
    case False
    with Resolved show ?thesis
      by (cases "errors body")
        (simp_all add: executeQuery_resolved recordShopifyCall_def posts_def Let_def)
  qed
qed


lemma consume_flags:
  "isConnected (consume db cost) = isConnected db"
  "commands_fail (consume db cost) = commands_fail db"
  "product_keys (consume db cost) = product_keys db"
  by (simp_all add: consume_def updateRateLimitState_def split: option.splits)

lemma refillBucket_flags:
  "isConnected (snd (refillBucket db now)) = isConnected db"
  "commands_fail (snd (refillBucket db now)) = commands_fail db"
  "product_keys (snd (refillBucket db now)) = product_keys db"
  by (simp_all add: refillBucket_def updateRateLimitState_def Let_def)

lemma getCachedProduct_cacheProduct:
  assumes "isConnected db" and "\<not> commands_fail db" and "int d < 300000"
  shows "getCachedProduct (cacheProduct db now gid product) (now + int d) gid = Some product"
  using assms
  by (simp add: getCachedProduct_def cacheProduct_def failedConnection_def redis_get_def
      redis_setEx_def expired_def)

lemma recordEndpointMetric_flags:
  "metrics_isConnected (recordEndpointMetric m now ms) = metrics_isConnected m"
  "metrics_commands_fail (recordEndpointMetric m now ms) = metrics_commands_fail m"
  by (simp_all add: recordEndpointMetric_def Let_def)

lemma redis_lPush_expire_entry:
  "0 < ttl \<Longrightarrow>
     redis_expire now ttl (redis_lPush now e x)
       = Some (x # redis_lRange now e, Some (now + ttl * 1000))"
  by (cases e)
    (auto simp: redis_lRange_def redis_get_def redis_lPush_def redis_expire_def expired_def
      split: option.splits if_splits)

lemma redis_incr_expire_entry:
  "0 < ttl \<Longrightarrow>
     redis_expire now ttl (redis_incr now e)
       = Some ((case redis_get now e of None \<Rightarrow> 0 | Some n \<Rightarrow> n) + 1, Some (now + ttl * 1000))"
  by (cases e)
    (auto simp: redis_get_def redis_incr_def redis_expire_def expired_def
      split: option.splits if_splits)

lemma recordEndpointMetric_entries:
  assumes "metrics_isConnected m" and "\<not> metrics_commands_fail m"
  shows "endpoint_times (recordEndpointMetric m now ms)
           = Some (toString ms # redis_lRange now (endpoint_times m), Some (now + 3600000))"
    and "endpoint_calls (recordEndpointMetric m now ms)
           = Some ((case redis_get now (endpoint_calls m) of None \<Rightarrow> 0 | Some n \<Rightarrow> n) + 1,
                   Some (now + 3600000))"
  using assms
  by (simp_all add: recordEndpointMetric_def metrics_failedConnection_def
      redis_lPush_expire_entry redis_incr_expire_entry Let_def)

lemma getMetrics_after_reset:
  "getMetrics (resetMetrics m) now = zero_stats"
  by (simp add: getMetrics_def resetMetrics_def metrics_failedConnection_def zero_stats_def
      redis_lRange_def redis_get_def parse_calls_def parseInt_def is_space_def is_digit_def
      digits_value_def digit_value_def Math_round_def Let_def)

section \<open>The token bucket\<close>

text \<open>
  C4. With a working store, \<open>refillBucket\<close> on a persisted state
  \<open>{points, lastRefillTime}\<close> at time \<open>now\<close> computes
  \<open>min 1000 (points + (now - lastRefillTime) / 1000 * 50)\<close>, persists it together with
  \<open>now\<close>, and returns it. With no persisted state it starts from \<open>{1000, now}\<close>, so the
  bucket is initialised full: \<open>canExecute cost\<close> resolves to true for every
  \<open>cost \<le> 1000\<close>, both in the call that initialises the bucket and in a call that
  follows it.
\<close>

theorem refillBucket_computes_and_persists:
  assumes "isConnected db" and "\<not> commands_fail db"
  shows "(ratelimiter_state db = Some st \<longrightarrow>
            refillBucket db now =
              (min 1000 (points st + real_of_int (now - lastRefillTime st) / 1000 * 50),
               db\<lparr>ratelimiter_state := Some
                    \<lparr>points = min 1000 (points st + real_of_int (now - lastRefillTime st) / 1000 * 50),
                     lastRefillTime = now\<rparr>\<rparr>))
       \<and> (ratelimiter_state db = None \<longrightarrow>
            refillBucket db now =
              (1000, db\<lparr>ratelimiter_state := Some \<lparr>points = 1000, lastRefillTime = now\<rparr>\<rparr>)
            \<and> (cost \<le> 1000 \<longrightarrow> await (fst (canExecute db now cost)))
            \<and> (cost \<le> 1000 \<and> now \<le> now' \<longrightarrow>
                 await (fst (canExecute (snd (refillBucket db now)) now' cost))))"
  using assms
  by (auto simp: refillBucket_def canExecute_def getRateLimitState_def updateRateLimitState_def
      failedConnection_def MAX_POINTS_def REFILL_RATE_def Let_def min_def)

theorem refillBucket_computes_and_persists_witness:
  "isConnected drained_store \<and> \<not> commands_fail drained_store
   \<and> ratelimiter_state drained_store = Some \<lparr>points = 100, lastRefillTime = 0\<rparr>
   \<and> refillBucket drained_store 4000 =
        (300, drained_store\<lparr>ratelimiter_state := Some \<lparr>points = 300, lastRefillTime = 4000\<rparr>\<rparr>)
   \<and> isConnected empty_store \<and> \<not> commands_fail empty_store
   \<and> ratelimiter_state empty_store = None
   \<and> refillBucket empty_store 4000 =
        (1000, empty_store\<lparr>ratelimiter_state := Some \<lparr>points = 1000, lastRefillTime = 4000\<rparr>\<rparr>)
   \<and> (1000::real) \<le> 1000 \<and> (4000::int) \<le> 4500
   \<and> await (fst (canExecute empty_store 4000 1000))
   \<and> await (fst (canExecute (snd (refillBucket empty_store 4000)) 4500 1000))"
  using refillBucket_computes_and_persists
          [of drained_store "\<lparr>points = 100, lastRefillTime = 0\<rparr>" 4000 1000 4500]
        refillBucket_computes_and_persists [of empty_store undefined 4000 1000 4500]
  by (simp add: drained_store_def empty_store_def refillBucket_def canExecute_def
      getRateLimitState_def updateRateLimitState_def failedConnection_def MAX_POINTS_def
      REFILL_RATE_def)

section \<open>Store outage\<close>

text \<open>
  A store that is not connected fails open: every read misses, the refill reports a full
  bucket, every write is skipped, and the metrics are zero; no rejection is raised.
\<close>

lemma disconnected_store_fails_open:
  assumes "\<not> isConnected db" and "\<not> metrics_isConnected m"
  shows "getCachedProduct db now productId = None"
    and "getCachedProductsList db now cursor = None"
    and "getRateLimitState db = None"
    and "refillBucket db now = (1000, db)"
    and "cost \<le> 1000 \<Longrightarrow> await (fst (canExecute db now cost))"
    and "cacheProduct db now productId product = db"
    and "cacheProductsList db now cursor page = db"
    and "consume db cost = db"
    and "recordEndpointMetric m now ms = m"
    and "recordShopifyMetric m now ms = m"
    and "getMetrics m now = zero_stats"
  using assms
  by (simp_all add: getCachedProduct_def getCachedProductsList_def getRateLimitState_def
      refillBucket_def canExecute_def cacheProduct_def cacheProductsList_def consume_def
      updateRateLimitState_def failedConnection_def MAX_POINTS_def REFILL_RATE_def
      recordEndpointMetric_def recordShopifyMetric_def
      getMetrics_def metrics_failedConnection_def Let_def)

text \<open>
  A connected store whose client rejects every command: the limiter's read is caught, but
  the write of the refill is not awaited and escapes as an unhandled rejection.
\<close>

lemma erroring_store_unhandled_rejection:
  assumes "isConnected db" and "commands_fail db"
  shows "getRateLimitState db = None"
    and "fst (refillBucket db now) = 1000"
    and "unhandled_rejection (snd (refillBucket db now))"
    and "unhandled_rejection (products_db (rate_limit_gate (w\<lparr>products_db := db\<rparr>)))"
  using assms
  by (simp_all add: rate_limit_gate_eq getRateLimitState_def refillBucket_def
      updateRateLimitState_def failedConnection_def MAX_POINTS_def REFILL_RATE_def Let_def)

text \<open>
  C9. A connected store whose client rejects every command does not fail open. The reads
  do return a miss, the limiter reads no state, the refill reports 1000 points,
  \<open>canExecute 10\<close> resolves to true and \<open>getMetrics\<close> is all zero; but the refill's write
  of the bucket, which every \<open>getProductById\<close> and \<open>listProducts\<close> that misses the cache
  makes, raises an unhandled rejection, and so do both recording methods of the metrics
  store: the process ends instead of serving the request.
\<close>

theorem erroring_store_ends_process:
  "isConnected erroring_store \<and> commands_fail erroring_store
   \<and> \<not> unhandled_rejection erroring_store
   \<and> getCachedProduct erroring_store 4000 ''gid://shopify/Product/1'' = None
   \<and> getCachedProductsList erroring_store 4000 None = None
   \<and> getRateLimitState erroring_store = None
   \<and> fst (refillBucket erroring_store 4000) = 1000
   \<and> await (fst (canExecute erroring_store 4000 10))
   \<and> unhandled_rejection (snd (refillBucket erroring_store 4000))
   \<and> \<not> process_ends erroring_world
   \<and> fst (getProductById erroring_world ''1'' 120 product_reply)
       = Inr (Some (marshallProduct example_node))
   \<and> process_ends (snd (getProductById erroring_world ''1'' 120 product_reply))
   \<and> process_ends (snd (listProducts erroring_world 10 None 120 (Rejected ''down'')))
   \<and> metrics_isConnected erroring_metrics \<and> metrics_commands_fail erroring_metrics
   \<and> \<not> metrics_unhandled_rejection erroring_metrics
   \<and> getMetrics erroring_metrics 4000 =
        \<lparr>endpoint_average = Number 0, endpoint_max = Number 0, endpoint_min = Number 0,
         total_endpoint_calls = Number 0, average_shopify_call_responsetime_ms = Number 0,
         total_shopify_api_calls = Number 0\<rparr>
   \<and> metrics_unhandled_rejection (recordEndpointMetric erroring_metrics 4000 120)
   \<and> metrics_unhandled_rejection (recordShopifyMetric erroring_metrics 4000 120)"
  by (simp add: erroring_store_def erroring_metrics_def erroring_world_def example_world_def
      drained_store_def empty_store_def empty_metrics_def product_reply_def process_ends_def
      getCachedProduct_def getCachedProductsList_def getRateLimitState_def refillBucket_def
      canExecute_def updateRateLimitState_def failedConnection_def MAX_POINTS_def
      REFILL_RATE_def getProductById_def getProductById_try_def listProducts_def
      listProducts_try_def executeQuery_def executeQuery_try_def rate_limit_gate_eq
      consume_def cacheProduct_def recordShopifyCall_def recordShopifyMetric_def
      recordEndpointMetric_def getMetrics_def metrics_failedConnection_def zero_stats_def
      Let_def)

section \<open>The invariant of the persisted bucket\<close>

text \<open>
  C3, as stated, fails. From a bucket of 100 points \<open>consume 150\<close> writes back \<open>- 50\<close>
  points, and a refill at time 4000 of a bucket whose persisted refill time is 9000
  writes back \<open>- 150\<close> points: neither operation clamps at zero.
\<close>

theorem bucket_invariant_counterexample:
  "bucket_invariant drained_store
   \<and> ratelimiter_state (consume drained_store 150) = Some \<lparr>points = - 50, lastRefillTime = 0\<rparr>
   \<and> \<not> bucket_invariant (consume drained_store 150)
   \<and> ratelimiter_state (snd (refillBucket (drained_store\<lparr>ratelimiter_state := Some \<lparr>points = 100, lastRefillTime = 9000\<rparr>\<rparr>) 4000))
       = Some \<lparr>points = - 150, lastRefillTime = 4000\<rparr>
   \<and> bucket_invariant (drained_store\<lparr>ratelimiter_state := Some \<lparr>points = 100, lastRefillTime = 9000\<rparr>\<rparr>)
   \<and> \<not> bucket_invariant (snd (refillBucket (drained_store\<lparr>ratelimiter_state := Some \<lparr>points = 100, lastRefillTime = 9000\<rparr>\<rparr>) 4000))"
  by (simp add: bucket_invariant_def drained_store_def empty_store_def consume_def
      refillBucket_def getRateLimitState_def updateRateLimitState_def failedConnection_def
      MAX_POINTS_def REFILL_RATE_def)

text \<open>
  C3 (amended). From a state with \<open>0 \<le> points \<le> 1000\<close>: \<open>refillBucket\<close> always writes
  back at most 1000 points, and keeps the invariant when the persisted refill time is not
  ahead of \<open>now\<close>; \<open>consume cost\<close> writes back \<open>points - cost\<close> with the refill time
  unchanged, which satisfies the invariant exactly when \<open>points - 1000 \<le> cost \<le> points\<close>;
  when the state cannot be read, \<open>consume\<close> writes nothing.
\<close>

theorem bucket_invariant_preserved_when:
  assumes "bucket_invariant db"
  shows "(refill_not_in_future db now \<longrightarrow> bucket_invariant (snd (refillBucket db now)))
       \<and> (case ratelimiter_state (snd (refillBucket db now)) of
            None \<Rightarrow> True | Some st' \<Rightarrow> points st' \<le> 1000)
       \<and> (getRateLimitState db = Some st \<longrightarrow>
            ratelimiter_state (consume db cost) =
              Some \<lparr>points = points st - cost, lastRefillTime = lastRefillTime st\<rparr>
            \<and> (bucket_invariant (consume db cost) \<longleftrightarrow>
                  points st - 1000 \<le> cost \<and> cost \<le> points st))
       \<and> (getRateLimitState db = None \<longrightarrow> consume db cost = db)"
  using assms
  by (auto simp: bucket_invariant_def refill_not_in_future_def consume_def
      refillBucket_def getRateLimitState_def updateRateLimitState_def failedConnection_def
      MAX_POINTS_def REFILL_RATE_def Let_def min_def split: option.splits)

theorem bucket_invariant_preserved_when_witness:
  "bucket_invariant drained_store \<and> refill_not_in_future drained_store 4000
   \<and> bucket_invariant (snd (refillBucket drained_store 4000))
   \<and> getRateLimitState drained_store = Some \<lparr>points = 100, lastRefillTime = 0\<rparr>
   \<and> ratelimiter_state (consume drained_store 30) = Some \<lparr>points = 70, lastRefillTime = 0\<rparr>
   \<and> bucket_invariant (consume drained_store 30)
   \<and> getRateLimitState (drained_store\<lparr>isConnected := False\<rparr>) = None
   \<and> consume (drained_store\<lparr>isConnected := False\<rparr>) 30 = drained_store\<lparr>isConnected := False\<rparr>"
  using bucket_invariant_preserved_when
          [of drained_store 4000 "\<lparr>points = 100, lastRefillTime = 0\<rparr>" 30]
        bucket_invariant_preserved_when
          [of "drained_store\<lparr>isConnected := False\<rparr>" 4000 undefined 30]
  by (simp add: bucket_invariant_def refill_not_in_future_def drained_store_def empty_store_def
      consume_def refillBucket_def getRateLimitState_def updateRateLimitState_def
      failedConnection_def MAX_POINTS_def REFILL_RATE_def)

section \<open>The gate and the settlement\<close>

text \<open>
  C1. On a cache miss with an empty bucket, \<open>canExecute 10\<close> resolves to false and
  \<open>getWaitTimeMs 10\<close> to 200 ms, yet \<open>getProductById\<close> posts the query without any
  sleep: the condition of the gate tests the promise, not its value.
\<close>

theorem exhausted_bucket_no_sleep:
  "await (fst (canExecute (products_db exhausted_world) (clock exhausted_world) 10)) = False
   \<and> await (fst (getWaitTimeMs (products_db exhausted_world) (clock exhausted_world) 10)) = 200
   \<and> fst (getProductById exhausted_world ''1'' 120 product_reply)
        = Inr (Some (marshallProduct example_node))
   \<and> trace (snd (getProductById exhausted_world ''1'' 120 product_reply))
        = [Ev_canExecute 10, Ev_post (Product_by_id_query ''gid://shopify/Product/1''),
           Ev_consume 3, Ev_recordShopifyCall 120]
   \<and> sleeps (trace (snd (getProductById exhausted_world ''1'' 120 product_reply))) = []"
  by (simp add: exhausted_world_def product_reply_def empty_store_def empty_metrics_def
      getProductById_def getProductById_try_def getCachedProduct_def executeQuery_def
      executeQuery_try_def rate_limit_gate_eq refillBucket_def canExecute_def getWaitTimeMs_def
      getRateLimitState_def updateRateLimitState_def failedConnection_def consume_def
      recordShopifyCall_def MAX_POINTS_def REFILL_RATE_def redis_get_def sleeps_def Let_def)

text \<open>
  C7. With a working store and a response that reports \<open>actualQueryCost = c\<close>, the gate
  calls \<open>canExecute\<close> with the fixed estimate 10 before the request is posted; after the
  response \<open>consume\<close> is called with \<open>c\<close>, and the persisted bucket holds the refilled
  points minus \<open>c\<close>.
\<close>

theorem gate_estimate_settle_actual:
  assumes "isConnected (products_db w)" and "\<not> commands_fail (products_db w)"
    and "extensions_cost body = Actual_cost c"
  shows "trace (snd (executeQuery w query latency (Resolved body)))
           = trace w @ [Ev_canExecute 10, Ev_post query, Ev_consume c,
                        Ev_recordShopifyCall (int latency)]
               @ (case errors body of
                    None \<Rightarrow> [] | Some es \<Rightarrow> [Ev_recordShopifyCall (int latency)])
       \<and> ratelimiter_state (products_db (snd (executeQuery w query latency (Resolved body))))
           = Some \<lparr>points = fst (refillBucket (products_db w) (clock w)) - c,
                   lastRefillTime = clock w\<rparr>"
proof -
  have ne: "extensions_cost body \<noteq> No_extensions"
    using assms(3) by simp
  have st: "ratelimiter_state (consume (snd (refillBucket (products_db w) (clock w))) c)
      = Some \<lparr>points = fst (refillBucket (products_db w) (clock w)) - c, lastRefillTime = clock w\<rparr>"
    using consume_connected [OF refillBucket_connected [OF assms(1,2)]] by simp
  show ?thesis
    using st
    by (cases "errors body")
      (simp_all add: executeQuery_resolved [OF ne] assms(3) recordShopifyCall_def Let_def)
qed

theorem gate_estimate_settle_actual_witness:
  "isConnected (products_db example_world) \<and> \<not> commands_fail (products_db example_world)
   \<and> trace (snd (executeQuery example_world (Product_by_id_query ''gid://shopify/Product/1'')
                    120 product_reply))
       = [Ev_canExecute 10, Ev_post (Product_by_id_query ''gid://shopify/Product/1''),
          Ev_consume 3, Ev_recordShopifyCall 120]
   \<and> fst (refillBucket (products_db example_world) (clock example_world)) = 300
   \<and> ratelimiter_state (products_db (snd (executeQuery example_world
          (Product_by_id_query ''gid://shopify/Product/1'') 120 product_reply)))
       = Some \<lparr>points = 297, lastRefillTime = 4000\<rparr>"
  using gate_estimate_settle_actual
          [of example_world
              "\<lparr>extensions_cost = Actual_cost 3, errors = None, data = Some (Some example_node)\<rparr>"
              3 "Product_by_id_query ''gid://shopify/Product/1''" 120]
  by (simp add: example_world_def drained_store_def empty_store_def product_reply_def
      refillBucket_def getRateLimitState_def failedConnection_def MAX_POINTS_def
      REFILL_RATE_def)

section \<open>Metrics of a failed GraphQL call\<close>

text \<open>
  C10, as stated, fails. A body that carries a GraphQL error and no
  \<^verbatim>\<open>extensions.cost\<close> makes \<open>executeQuery\<close> throw a TypeError where it reads the
  cost, before the first \<open>recordShopifyCall\<close>: only the \<^verbatim>\<open>catch\<close> block reports, and
  the call is recorded once.
\<close>

theorem graphql_errors_recorded_counterexample:
  "fst (executeQuery example_world (Product_by_id_query ''gid://shopify/Product/1'') 120
          errors_no_cost_reply) = Inl TypeError
   \<and> posts (trace (snd (executeQuery example_world
          (Product_by_id_query ''gid://shopify/Product/1'') 120 errors_no_cost_reply)))
       = [Product_by_id_query ''gid://shopify/Product/1'']
   \<and> shopify_records (trace (snd (executeQuery example_world
          (Product_by_id_query ''gid://shopify/Product/1'') 120 errors_no_cost_reply)))
       = [120]
   \<and> redis_lRange 4120 (shopify_times (metrics_db (snd (executeQuery example_world
          (Product_by_id_query ''gid://shopify/Product/1'') 120 errors_no_cost_reply))))
       = [''120'']
   \<and> redis_get 4120 (shopify_calls (metrics_db (snd (executeQuery example_world
          (Product_by_id_query ''gid://shopify/Product/1'') 120 errors_no_cost_reply))))
       = Some 1"
  by (simp add: errors_no_cost_reply_def executeQuery_no_extensions recordShopifyCall_def
      example_world_def empty_metrics_def recordShopifyMetric_def metrics_failedConnection_def
      posts_def shopify_records_def redis_lRange_def redis_get_def redis_lPush_def
      redis_expire_def redis_incr_def redis_setEx_def expired_def toString_def digit_char_def
      Let_def)

text \<open>
  C10 (amended). With a working metrics store, when the HTTP exchange succeeds and the
  body carries a non-empty \<open>errors\<close> list: if \<^verbatim>\<open>extensions.cost\<close> can be read,
  \<open>executeQuery\<close> throws the joined messages after it has reported the elapsed time, and
  the \<^verbatim>\<open>catch\<close> block reports it again, so that one upstream request gives two
  \<open>recordShopifyCall\<close> calls, two new entries at the head of the sample list and a call
  counter raised by two; if \<^verbatim>\<open>extensions.cost\<close> is missing, the TypeError comes before
  the first report and the one request gives one call, one entry and a counter raised by
  one.
\<close>

theorem graphql_errors_metric_records:
  assumes "metrics_isConnected (metrics_db w)" and "\<not> metrics_commands_fail (metrics_db w)"
    and "errors body = Some es" and "es \<noteq> []"
  shows "(extensions_cost body \<noteq> No_extensions \<longrightarrow>
            fst (executeQuery w query latency (Resolved body))
              = Inl (Error (''GraphQL Error: '' @ join es))
          \<and> posts (trace (snd (executeQuery w query latency (Resolved body))))
              = posts (trace w) @ [query]
          \<and> shopify_records (trace (snd (executeQuery w query latency (Resolved body))))
              = shopify_records (trace w) @ [int latency, int latency]
          \<and> redis_lRange (clock w + int latency)
                (shopify_times (metrics_db (snd (executeQuery w query latency (Resolved body)))))
              = toString (int latency) # toString (int latency)
                  # redis_lRange (clock w + int latency) (shopify_times (metrics_db w))
          \<and> redis_get (clock w + int latency)
                (shopify_calls (metrics_db (snd (executeQuery w query latency (Resolved body)))))
              = Some ((case redis_get (clock w + int latency) (shopify_calls (metrics_db w)) of
                         None \<Rightarrow> 0 | Some n \<Rightarrow> n) + 2))
       \<and> (extensions_cost body = No_extensions \<longrightarrow>
            fst (executeQuery w query latency (Resolved body)) = Inl TypeError
          \<and> posts (trace (snd (executeQuery w query latency (Resolved body))))
              = posts (trace w) @ [query]
          \<and> shopify_records (trace (snd (executeQuery w query latency (Resolved body))))
              = shopify_records (trace w) @ [int latency]
          \<and> redis_lRange (clock w + int latency)
                (shopify_times (metrics_db (snd (executeQuery w query latency (Resolved body)))))
              = toString (int latency)
                  # redis_lRange (clock w + int latency) (shopify_times (metrics_db w))
          \<and> redis_get (clock w + int latency)
                (shopify_calls (metrics_db (snd (executeQuery w query latency (Resolved body)))))
              = Some ((case redis_get (clock w + int latency) (shopify_calls (metrics_db w)) of
                         None \<Rightarrow> 0 | Some n \<Rightarrow> n) + 1))"
proof (intro conjI impI)
  let ?now = "clock w + int latency"
  let ?m1 = "recordShopifyMetric (metrics_db w) ?now (int latency)"
  let ?m2 = "recordShopifyMetric ?m1 ?now (int latency)"
  have calls1: "redis_get ?now (shopify_calls ?m1)
      = Some ((case redis_get ?now (shopify_calls (metrics_db w)) of
                 None \<Rightarrow> 0 | Some n \<Rightarrow> n) + 1)"
    using assms(1,2) by (simp add: recordShopifyMetric_calls)
  have times1: "redis_lRange ?now (shopify_times ?m1)
      = toString (int latency) # redis_lRange ?now (shopify_times (metrics_db w))"
    using assms(1,2) by (simp add: recordShopifyMetric_times)
  have calls2: "redis_get ?now (shopify_calls ?m2)
      = Some ((case redis_get ?now (shopify_calls (metrics_db w)) of
                 None \<Rightarrow> 0 | Some n \<Rightarrow> n) + 2)"
    using assms(1,2) by (simp add: recordShopifyMetric_calls recordShopifyMetric_flags)
  have times2: "redis_lRange ?now (shopify_times ?m2)
      = toString (int latency) # toString (int latency)
          # redis_lRange ?now (shopify_times (metrics_db w))"
    using assms(1,2) by (simp add: recordShopifyMetric_times recordShopifyMetric_flags)
  {
    assume ne: "extensions_cost body \<noteq> No_extensions"
    have db: "metrics_db (snd (executeQuery w query latency (Resolved body))) = ?m2"
      by (simp add: executeQuery_resolved [OF ne] assms(3) recordShopifyCall_def Let_def)
    have tr: "trace (snd (executeQuery w query latency (Resolved body)))
        = trace w @ [Ev_canExecute 10, Ev_post query,
                     Ev_consume (case extensions_cost body of Actual_cost c \<Rightarrow> c | _ \<Rightarrow> 5),
                     Ev_recordShopifyCall (int latency), Ev_recordShopifyCall (int latency)]"
      by (simp add: executeQuery_resolved [OF ne] assms(3) recordShopifyCall_def Let_def)
    show "fst (executeQuery w query latency (Resolved body))
        = Inl (Error (''GraphQL Error: '' @ join es))"
      by (simp add: executeQuery_resolved [OF ne] assms(3) Let_def)
    show "posts (trace (snd (executeQuery w query latency (Resolved body))))
        = posts (trace w) @ [query]"
      by (simp add: tr posts_def)
    show "shopify_records (trace (snd (executeQuery w query latency (Resolved body))))
        = shopify_records (trace w) @ [int latency, int latency]"
      by (simp add: tr shopify_records_def)
    show "redis_lRange ?now
            (shopify_times (metrics_db (snd (executeQuery w query latency (Resolved body)))))
        = toString (int latency) # toString (int latency)
            # redis_lRange ?now (shopify_times (metrics_db w))"
      by (simp add: db times2)
    show "redis_get ?now
            (shopify_calls (metrics_db (snd (executeQuery w query latency (Resolved body)))))
        = Some ((case redis_get ?now (shopify_calls (metrics_db w)) of
                   None \<Rightarrow> 0 | Some n \<Rightarrow> n) + 2)"
      by (simp add: db calls2)
  }
  {
    assume no: "extensions_cost body = No_extensions"
    have db: "metrics_db (snd (executeQuery w query latency (Resolved body))) = ?m1"
      by (simp add: executeQuery_no_extensions [OF no] recordShopifyCall_def)
    have tr: "trace (snd (executeQuery w query latency (Resolved body)))
        = trace w @ [Ev_canExecute 10, Ev_post query, Ev_recordShopifyCall (int latency)]"
      by (simp add: executeQuery_no_extensions [OF no] recordShopifyCall_def)
    show "fst (executeQuery w query latency (Resolved body)) = Inl TypeError"
      by (simp add: executeQuery_no_extensions [OF no])
    show "posts (trace (snd (executeQuery w query latency (Resolved body))))
        = posts (trace w) @ [query]"
      by (simp add: tr posts_def)
    show "shopify_records (trace (snd (executeQuery w query latency (Resolved body))))
        = shopify_records (trace w) @ [int latency]"
      by (simp add: tr shopify_records_def)
    show "redis_lRange ?now
            (shopify_times (metrics_db (snd (executeQuery w query latency (Resolved body)))))
        = toString (int latency) # redis_lRange ?now (shopify_times (metrics_db w))"
      by (simp add: db times1)
    show "redis_get ?now
            (shopify_calls (metrics_db (snd (executeQuery w query latency (Resolved body)))))
        = Some ((case redis_get ?now (shopify_calls (metrics_db w)) of
                   None \<Rightarrow> 0 | Some n \<Rightarrow> n) + 1)"
      by (simp add: db calls1)
  }
qed

theorem graphql_errors_metric_records_witness:
  "metrics_isConnected (metrics_db example_world)
   \<and> \<not> metrics_commands_fail (metrics_db example_world)
   \<and> fst (executeQuery example_world (Product_by_id_query ''gid://shopify/Product/1'')
             120 errors_reply)
       = Inl (Error ''GraphQL Error: Throttled; Field missing'')
   \<and> posts (trace (snd (executeQuery example_world
          (Product_by_id_query ''gid://shopify/Product/1'') 120 errors_reply)))
       = [Product_by_id_query ''gid://shopify/Product/1'']
   \<and> shopify_records (trace (snd (executeQuery example_world
          (Product_by_id_query ''gid://shopify/Product/1'') 120 errors_reply)))
       = [120, 120]
   \<and> redis_lRange 4120 (shopify_times (metrics_db (snd (executeQuery example_world
          (Product_by_id_query ''gid://shopify/Product/1'') 120 errors_reply))))
       = [''120'', ''120'']
   \<and> redis_get 4120 (shopify_calls (metrics_db (snd (executeQuery example_world
          (Product_by_id_query ''gid://shopify/Product/1'') 120 errors_reply))))
       = Some 2
   \<and> fst (executeQuery example_world (Product_by_id_query ''gid://shopify/Product/1'')
             120 errors_no_cost_reply)
       = Inl TypeError
   \<and> shopify_records (trace (snd (executeQuery example_world
          (Product_by_id_query ''gid://shopify/Product/1'') 120 errors_no_cost_reply)))
       = [120]
   \<and> redis_lRange 4120 (shopify_times (metrics_db (snd (executeQuery example_world
          (Product_by_id_query ''gid://shopify/Product/1'') 120 errors_no_cost_reply))))
       = [''120'']
   \<and> redis_get 4120 (shopify_calls (metrics_db (snd (executeQuery example_world
          (Product_by_id_query ''gid://shopify/Product/1'') 120 errors_no_cost_reply))))
       = Some 1"
  using graphql_errors_metric_records
          [of example_world
              "\<lparr>extensions_cost = Actual_cost 3,
                errors = Some [''Throttled'', ''Field missing''],
                data = (None :: raw_node option option)\<rparr>"
              "[''Throttled'', ''Field missing'']"
              "Product_by_id_query ''gid://shopify/Product/1''" 120]
        graphql_errors_metric_records
          [of example_world
              "\<lparr>extensions_cost = No_extensions,
                errors = Some [''Parse error''],
                data = (None :: raw_node option option)\<rparr>"
              "[''Parse error'']"
              "Product_by_id_query ''gid://shopify/Product/1''" 120]
  by (simp add: example_world_def empty_metrics_def errors_reply_def errors_no_cost_reply_def
      posts_def shopify_records_def redis_lRange_def redis_get_def toString_def digit_char_def)

section \<open>The cache-aside read path\<close>

text \<open>
  C5. \<open>listProducts limit cursor\<close> returns the page cached under the cursor's key,
  without any upstream request, when that page exists and has at least \<open>limit\<close> edges.
  When there is no such page, or it has fewer than \<open>limit\<close> edges, it posts exactly one
  upstream query, whose page size is \<open>limit\<close> clamped to the range from 1 to 250.
\<close>

theorem listProducts_clamp_and_cache_rule:
  "(getCachedProductsList (products_db w) (clock w) cursor = Some page
      \<and> limit \<le> int (length (edges page))
    \<longrightarrow> listProducts w limit cursor latency reply = (Inr page, w))
   \<and> (getCachedProductsList (products_db w) (clock w) cursor = None
        \<or> getCachedProductsList (products_db w) (clock w) cursor = Some page
            \<and> int (length (edges page)) < limit
    \<longrightarrow> posts (trace (snd (listProducts w limit cursor latency reply)))
          = posts (trace w)
              @ [Products_query (if limit < 1 then 1 else if 250 < limit then 250 else limit)
                   (cursor_or_null cursor) ''TITLE''])"
proof -
  let ?q = "Products_query (min (max 1 limit) 250) (cursor_or_null cursor) ''TITLE''"
  have clamp: "min (max 1 limit) 250 = (if limit < 1 then 1 else if 250 < limit then 250 else limit)"
    by simp
  have p: "posts (trace (snd (executeQuery w ?q latency reply))) = posts (trace w) @ [?q]"
    by (rule executeQuery_posts)
  have miss: "posts (trace (snd (listProducts w limit cursor latency reply)))
                = posts (trace w) @ [?q]"
    if "(case getCachedProductsList (products_db w) (clock w) cursor of
           Some page \<Rightarrow> (if int (length (edges page)) \<ge> limit then Some page else None)
         | None \<Rightarrow> None) = None"
    using that p
    by (cases "executeQuery w ?q latency reply")
      (auto simp: listProducts_def listProducts_try_def Let_def
        split: sum.splits option.splits)
  show ?thesis
    using miss
    by (auto simp: listProducts_def listProducts_try_def Let_def clamp)
qed

theorem listProducts_clamp_and_cache_rule_witness:
  "getCachedProductsList (products_db paged_world) (clock paged_world) None = Some cached_page
   \<and> (2::int) \<le> int (length (edges cached_page))
   \<and> listProducts paged_world 2 None 120 (Rejected ''unused'') = (Inr cached_page, paged_world)
   \<and> int (length (edges cached_page)) < 5
   \<and> posts (trace (snd (listProducts paged_world 5 None 120 (Rejected ''down''))))
       = [Products_query 5 None ''TITLE'']
   \<and> getCachedProductsList (products_db paged_world) (clock paged_world) (Some ''c2'') = None
   \<and> posts (trace (snd (listProducts paged_world 300 (Some ''c2'') 120 (Rejected ''down''))))
       = [Products_query 250 (Some ''c2'') ''TITLE'']"
  using listProducts_clamp_and_cache_rule
          [of paged_world None cached_page 2 120 "Rejected ''unused''"]
        listProducts_clamp_and_cache_rule
          [of paged_world None cached_page 5 120 "Rejected ''down''"]
        listProducts_clamp_and_cache_rule
          [of paged_world "Some ''c2''" cached_page 300 120 "Rejected ''down''"]
  by (simp add: paged_world_def example_world_def drained_store_def empty_store_def
      cached_page_def getCachedProductsList_def failedConnection_def cursor_or_start_def
      cursor_or_null_def redis_get_def expired_def posts_def)

text \<open>
  C6. With a working store, a first \<open>getProductById id\<close> that misses the cache and
  receives the product from the upstream returns it; a second call for the same id, made
  less than 300 seconds after the first one returned, returns the same product whatever
  the upstream would answer, and the two calls together post exactly one upstream query.
\<close>

theorem getProductById_twice_one_query:
  assumes "isConnected (products_db w)" and "\<not> commands_fail (products_db w)"
    and "getCachedProduct (products_db w) (clock w) (''gid://shopify/Product/'' @ id0) = None"
    and "extensions_cost body \<noteq> No_extensions" and "errors body = None"
    and "data body = Some (Some node)"
    and "int d < 300000"
  shows "fst (getProductById w id0 latency (Resolved body)) = Inr (Some (marshallProduct node))
       \<and> fst (getProductById
                ((snd (getProductById w id0 latency (Resolved body)))
                   \<lparr>clock := clock (snd (getProductById w id0 latency (Resolved body))) + int d\<rparr>)
                id0 latency' reply')
           = Inr (Some (marshallProduct node))
       \<and> posts (trace (snd (getProductById
                ((snd (getProductById w id0 latency (Resolved body)))
                   \<lparr>clock := clock (snd (getProductById w id0 latency (Resolved body))) + int d\<rparr>)
                id0 latency' reply')))
           = posts (trace w) @ [Product_by_id_query (''gid://shopify/Product/'' @ id0)]"
proof -
  let ?gid = "''gid://shopify/Product/'' @ id0"
  let ?q = "Product_by_id_query ?gid"
  let ?p = "marshallProduct node"
  obtain w1 where ex: "executeQuery w ?q latency (Resolved body) = (Inr (Some (Some node)), w1)"
    by (simp add: executeQuery_resolved [OF assms(4)] assms(5,6) Let_def)
  have w1_posts: "posts (trace w1) = posts (trace w) @ [?q]"
    using executeQuery_posts [of w ?q latency "Resolved body"] ex by simp
  have w1_db: "products_db w1
      = consume (snd (refillBucket (products_db w) (clock w)))
          (case extensions_cost body of Actual_cost c \<Rightarrow> c | _ \<Rightarrow> 5)"
    using ex
    by (auto simp: executeQuery_resolved [OF assms(4)] assms(5,6) recordShopifyCall_def Let_def)
  have w1_conn: "isConnected (products_db w1)" "\<not> commands_fail (products_db w1)"
    using assms(1,2) by (simp_all add: w1_db consume_flags refillBucket_flags)
  let ?w2 = "w1\<lparr>products_db := cacheProduct (products_db w1) (clock w1) ?gid ?p\<rparr>"
  have first: "getProductById w id0 latency (Resolved body) = (Inr (Some ?p), ?w2)"
    using assms(3) ex by (simp add: getProductById_def getProductById_try_def Let_def)
  have hit: "getCachedProduct (products_db (?w2\<lparr>clock := clock ?w2 + int d\<rparr>))
               (clock (?w2\<lparr>clock := clock ?w2 + int d\<rparr>)) ?gid = Some ?p"
    using getCachedProduct_cacheProduct [OF w1_conn assms(7)] by simp
  have second: "getProductById (?w2\<lparr>clock := clock ?w2 + int d\<rparr>) id0 latency' reply'
      = (Inr (Some ?p), ?w2\<lparr>clock := clock ?w2 + int d\<rparr>)"
    using hit by (simp add: getProductById_def getProductById_try_def Let_def)
  show ?thesis
    using first second w1_posts by simp
qed

theorem getProductById_twice_one_query_witness:
  "isConnected (products_db example_world) \<and> \<not> commands_fail (products_db example_world)
   \<and> getCachedProduct (products_db example_world) (clock example_world)
        ''gid://shopify/Product/1'' = None
   \<and> (1000::int) < 300000
   \<and> fst (getProductById example_world ''1'' 120 product_reply)
       = Inr (Some (marshallProduct example_node))
   \<and> fst (getProductById
            ((snd (getProductById example_world ''1'' 120 product_reply))
               \<lparr>clock := clock (snd (getProductById example_world ''1'' 120 product_reply)) + 1000\<rparr>)
            ''1'' 80 (Rejected ''down''))
       = Inr (Some (marshallProduct example_node))
   \<and> posts (trace (snd (getProductById
            ((snd (getProductById example_world ''1'' 120 product_reply))
               \<lparr>clock := clock (snd (getProductById example_world ''1'' 120 product_reply)) + 1000\<rparr>)
            ''1'' 80 (Rejected ''down''))))
       = [Product_by_id_query ''gid://shopify/Product/1'']"
  using getProductById_twice_one_query
          [of example_world "''1''"
              "\<lparr>extensions_cost = Actual_cost 3, errors = None, data = Some (Some example_node)\<rparr>"
              example_node 1000 120 80 "Rejected ''down''"]
  by (simp add: product_reply_def example_world_def drained_store_def empty_store_def
      getCachedProduct_def failedConnection_def redis_get_def posts_def)

section \<open>Upstream failures\<close>




section \<open>The metrics window\<close>

text \<open>
  C8. With a working store and an empty endpoint window, after the samples 100, 200 and
  300 are recorded, each less than an hour after the one before, \<open>getMetrics\<close> less than
  an hour later reports for the endpoint class average 200, maximum 300, minimum 100 and
  3 calls. After \<open>resetMetrics\<close>, \<open>getMetrics\<close> reports zero in every field of both
  classes.
\<close>

theorem metrics_samples_and_reset:
  assumes "metrics_isConnected m" and "\<not> metrics_commands_fail m"
    and "redis_get t1 (endpoint_times m) = None" and "redis_get t1 (endpoint_calls m) = None"
    and "t2 < t1 + 3600000" and "t3 < t2 + 3600000" and "t4 < t3 + 3600000"
  shows "endpoint_average
           (getMetrics (recordEndpointMetric (recordEndpointMetric (recordEndpointMetric m
              t1 100) t2 200) t3 300) t4) = Number 200
       \<and> endpoint_max
           (getMetrics (recordEndpointMetric (recordEndpointMetric (recordEndpointMetric m
              t1 100) t2 200) t3 300) t4) = Number 300
       \<and> endpoint_min
           (getMetrics (recordEndpointMetric (recordEndpointMetric (recordEndpointMetric m
              t1 100) t2 200) t3 300) t4) = Number 100
       \<and> total_endpoint_calls
           (getMetrics (recordEndpointMetric (recordEndpointMetric (recordEndpointMetric m
              t1 100) t2 200) t3 300) t4) = Number 3
       \<and> getMetrics (resetMetrics m') now =
           \<lparr>endpoint_average = Number 0, endpoint_max = Number 0, endpoint_min = Number 0,
            total_endpoint_calls = Number 0, average_shopify_call_responsetime_ms = Number 0,
            total_shopify_api_calls = Number 0\<rparr>"
proof -
  let ?m1 = "recordEndpointMetric m t1 100"
  let ?m2 = "recordEndpointMetric ?m1 t2 200"
  let ?m3 = "recordEndpointMetric ?m2 t3 300"
  have c1: "metrics_isConnected ?m1" "\<not> metrics_commands_fail ?m1"
    using assms(1,2) by (simp_all add: recordEndpointMetric_flags)
  have c2: "metrics_isConnected ?m2" "\<not> metrics_commands_fail ?m2"
    using c1 by (simp_all add: recordEndpointMetric_flags)
  have c3: "metrics_isConnected ?m3" "\<not> metrics_commands_fail ?m3"
    using c2 by (simp_all add: recordEndpointMetric_flags)
  have e1: "endpoint_times ?m1 = Some ([''100''], Some (t1 + 3600000))"
    "endpoint_calls ?m1 = Some (1, Some (t1 + 3600000))"
    using assms(3,4)
    by (simp_all add: recordEndpointMetric_entries [OF assms(1,2)] redis_lRange_def
        toString_def digit_char_def)
  have e2: "endpoint_times ?m2 = Some ([''200'', ''100''], Some (t2 + 3600000))"
    "endpoint_calls ?m2 = Some (2, Some (t2 + 3600000))"
    using assms(5)
    by (simp_all add: recordEndpointMetric_entries [OF c1] e1 redis_lRange_def redis_get_def
        expired_def toString_def digit_char_def)
  have e3: "endpoint_times ?m3 = Some ([''300'', ''200'', ''100''], Some (t3 + 3600000))"
    "endpoint_calls ?m3 = Some (3, Some (t3 + 3600000))"
    using assms(6)
    by (simp_all add: recordEndpointMetric_entries [OF c2] e2 redis_lRange_def redis_get_def
        expired_def toString_def digit_char_def)
  have r: "redis_lRange t4 (endpoint_times ?m3) = [''300'', ''200'', ''100'']"
    "redis_get t4 (endpoint_calls ?m3) = Some 3"
    using assms(7) by (simp_all add: e3 redis_lRange_def redis_get_def expired_def)
  have p: "parseInt ''300'' = Some 300" "parseInt ''200'' = Some 200"
    "parseInt ''100'' = Some 100" "parseInt ''3'' = Some 3"
    by (simp_all add: parseInt_def is_space_def is_digit_def digits_value_def digit_value_def)
  have stats: "average [Some 300, Some 200, Some 100] = Some 200"
    "Math_max [Some 300, Some 200, Some 100] = Number 300"
    "Math_min [Some 300, Some 200, Some 100] = Number 100"
    "parse_calls (Some (toString 3)) = Number 3"
    by (simp_all add: average_def reduce_sum_def Math_max_def Math_min_def parse_calls_def p
        toString_def digit_char_def)
  have g: "endpoint_average (getMetrics ?m3 t4) = Number 200"
    "endpoint_max (getMetrics ?m3 t4) = Number 300"
    "endpoint_min (getMetrics ?m3 t4) = Number 100"
    "total_endpoint_calls (getMetrics ?m3 t4) = Number 3"
    using c3
    by (simp_all add: getMetrics_def metrics_failedConnection_def r p stats Math_round_def
        Let_def)
  show ?thesis
    using g by (simp add: getMetrics_after_reset zero_stats_def)
qed

theorem metrics_samples_and_reset_witness:
  "metrics_isConnected empty_metrics \<and> \<not> metrics_commands_fail empty_metrics
   \<and> redis_get 1000 (endpoint_times empty_metrics) = None
   \<and> redis_get 1000 (endpoint_calls empty_metrics) = None
   \<and> (2000::int) < 1000 + 3600000 \<and> (3000::int) < 2000 + 3600000
   \<and> (4000::int) < 3000 + 3600000
   \<and> endpoint_average
        (getMetrics (recordEndpointMetric (recordEndpointMetric (recordEndpointMetric
           empty_metrics 1000 100) 2000 200) 3000 300) 4000) = Number 200
   \<and> endpoint_max
        (getMetrics (recordEndpointMetric (recordEndpointMetric (recordEndpointMetric
           empty_metrics 1000 100) 2000 200) 3000 300) 4000) = Number 300
   \<and> endpoint_min
        (getMetrics (recordEndpointMetric (recordEndpointMetric (recordEndpointMetric
           empty_metrics 1000 100) 2000 200) 3000 300) 4000) = Number 100
   \<and> total_endpoint_calls
        (getMetrics (recordEndpointMetric (recordEndpointMetric (recordEndpointMetric
           empty_metrics 1000 100) 2000 200) 3000 300) 4000) = Number 3
   \<and> getMetrics (resetMetrics (recordEndpointMetric (recordEndpointMetric
        (recordEndpointMetric empty_metrics 1000 100) 2000 200) 3000 300)) 5000 =
        \<lparr>endpoint_average = Number 0, endpoint_max = Number 0, endpoint_min = Number 0,
         total_endpoint_calls = Number 0, average_shopify_call_responsetime_ms = Number 0,
         total_shopify_api_calls = Number 0\<rparr>"
  using metrics_samples_and_reset
          [of empty_metrics 1000 2000 3000 4000
              "recordEndpointMetric (recordEndpointMetric
                 (recordEndpointMetric empty_metrics 1000 100) 2000 200) 3000 300" 5000]
  by (simp add: empty_metrics_def redis_get_def)

end
